theory Spec2Isabelle
  imports Main
begin

section \<open>Multilingual chatbot backend: translation cache and message pipeline\<close>

text \<open>
  The backend consists of \<^verbatim>\<open>app/translation.py\<close> (a process-wide dictionary of
  lazily constructed translation pipelines) and \<^verbatim>\<open>app/main.py\<close> (a websocket
  loop that chains translation and completion, and a unary \<^verbatim>\<open>/translate\<close>
  endpoint). The translation models and the language model are third-party
  services; they appear here as the fields of an environment record, and
  every call to one of them is recorded in a trace kept in the state.
\<close>

subsection \<open>Exceptions\<close>

text \<open>
  A Python exception: its class, its argument and the exception it was raised
  from, if any. The two modules raise \<^verbatim>\<open>ValueError\<close> (line 17 of
  translation.py), \<^verbatim>\<open>IndexError\<close> and \<^verbatim>\<open>KeyError\<close> (the subscripts of line 26);
  a third-party call may raise an exception of any class. All classes that
  occur are subclasses of Python's \<^verbatim>\<open>Exception\<close>.
\<close>

datatype exn = Exn (exn_class: string) (exn_arg: string) (exn_cause: "exn option")

abbreviation ValueError :: "string \<Rightarrow> exn" where
  "ValueError m \<equiv> Exn ''ValueError'' m None"

abbreviation IndexError :: "string \<Rightarrow> exn" where
  "IndexError m \<equiv> Exn ''IndexError'' m None"

abbreviation KeyError :: "string \<Rightarrow> exn" where
  "KeyError k \<equiv> Exn ''KeyError'' k None"

text \<open>
  Python's \<^verbatim>\<open>str(e)\<close>: the argument, and for a \<^verbatim>\<open>KeyError\<close> the \<^verbatim>\<open>repr\<close> of the
  key (the key in single quotes, for a key without quotes or escapes).
\<close>

definition str_exn :: "exn \<Rightarrow> string" where
  "str_exn e =
     (if exn_class e = ''KeyError'' then [CHR 0x27] @ exn_arg e @ [CHR 0x27]
      else exn_arg e)"

subsection \<open>Collaborators and state\<close>

text \<open>
  A translation pipeline is a callable from a text to a list of candidates,
  each a dictionary. The text handed to a collaborator is a Python \<^verbatim>\<open>str\<close>
  or \<^verbatim>\<open>None\<close> (the websocket loop reads it with \<^verbatim>\<open>payload.get('text')\<close>), hence
  the option type.
\<close>

type_synonym candidate = "string \<rightharpoonup> string"

type_synonym translator = "string option \<Rightarrow> exn + candidate list"

text \<open>
  A constructed pipeline object: its behaviour when called and its object
  identity \<open>hid\<close>, so that "the same instance" can be stated.
\<close>

record handle =
  hid :: nat
  call :: translator

text \<open>
  The environment: \<open>pipeline m\<close> is \<^verbatim>\<open>pipeline('translation', model=m)\<close> of the
  transformers library, \<open>generate_reply\<close> is the completion function of
  \<^verbatim>\<open>app/llm_agent.py\<close> seen from its callers. Either may raise.
\<close>

record world =
  pipeline :: "string \<Rightarrow> exn + translator"
  generate_reply :: "string option \<Rightarrow> exn + string"

datatype event =
    Construct string
  | Store string nat
  | Invoke nat "string option"
  | Complete "string option"

text \<open>
  The process state: the module-level dictionary \<^verbatim>\<open>_translation_pipelines\<close>, the
  allocator of object identities, and the trace of collaborator calls and
  dictionary stores made so far.
\<close>

record state =
  translation_pipelines :: "string \<rightharpoonup> handle"
  next_id :: nat
  trace :: "event list"

definition init_state :: state where
  "init_state = \<lparr>translation_pipelines = Map.empty, next_id = 0, trace = []\<rparr>"

definition emit :: "event \<Rightarrow> state \<Rightarrow> state" where
  "emit e s = s\<lparr>trace := trace s @ [e]\<rparr>"

subsection \<open>translation.py\<close>

definition LANGUAGE_MODELS :: "string \<rightharpoonup> string" where
  "LANGUAGE_MODELS = map_of
     [(''en->hi'', ''Helsinki-NLP/opus-mt-en-hi''),
      (''hi->en'', ''Helsinki-NLP/opus-mt-hi-en''),
      (''en->ja'', ''Helsinki-NLP/opus-mt-en-jap''),
      (''ja->en'', ''Helsinki-NLP/opus-mt-ja-en'')]"

definition no_model_msg :: "string \<Rightarrow> string" where
  "no_model_msg key = ''No translation model configured for '' @ key"

text \<open>
  \<^verbatim>\<open>_get_pipeline\<close>. The test \<^verbatim>\<open>if not model_id\<close> is true for \<^verbatim>\<open>None\<close> and for the
  empty string. A failed construction raises before line 19, so nothing is
  stored.
\<close>

definition get_pipeline :: "world \<Rightarrow> state \<Rightarrow> string \<Rightarrow> (exn + handle) \<times> state" where
  "get_pipeline w s key =
     (case translation_pipelines s key of
        Some h \<Rightarrow> (Inr h, s)
      | None \<Rightarrow>
          (case LANGUAGE_MODELS key of
             None \<Rightarrow> (Inl (ValueError (no_model_msg key)), s)
           | Some model_id \<Rightarrow>
               if model_id = [] then (Inl (ValueError (no_model_msg key)), s)
               else
                 (let s1 = emit (Construct model_id) s in
                  case pipeline w model_id of
                    Inl e \<Rightarrow> (Inl e, s1)
                  | Inr f \<Rightarrow>
                      (let pipe = \<lparr>hid = next_id s1, call = f\<rparr> in
                       (Inr pipe,
                        emit (Store key (hid pipe))
                          (s1\<lparr>translation_pipelines := (translation_pipelines s1)(key \<mapsto> pipe),
                              next_id := Suc (next_id s1)\<rparr>))))))"

text \<open>
  \<^verbatim>\<open>translate_text\<close>. \<^verbatim>\<open>out[0]\<close> raises \<^verbatim>\<open>IndexError\<close> on an empty list and
  \<^verbatim>\<open>["translation_text"]\<close> raises \<^verbatim>\<open>KeyError\<close> on a candidate without that key.
  There is no \<^verbatim>\<open>try\<close> in the function: what the pipeline raises is what the
  caller sees.
\<close>

definition translate_text ::
  "world \<Rightarrow> state \<Rightarrow> string option \<Rightarrow> string \<Rightarrow> string \<Rightarrow> (exn + string) \<times> state" where
  "translate_text w s txt src tgt =
     (let key = src @ ''->'' @ tgt in
      case get_pipeline w s key of
        (Inl e, s1) \<Rightarrow> (Inl e, s1)
      | (Inr pipe, s1) \<Rightarrow>
          (let s2 = emit (Invoke (hid pipe) txt) s1 in
           case call pipe txt of
             Inl e \<Rightarrow> (Inl e, s2)
           | Inr out \<Rightarrow>
               (case out of
                  [] \<Rightarrow> (Inl (IndexError ''list index out of range''), s2)
                | c # _ \<Rightarrow>
                    (case c ''translation_text'' of
                       None \<Rightarrow> (Inl (KeyError ''translation_text''), s2)
                     | Some t \<Rightarrow> (Inr t, s2)))))"

subsection \<open>main.py\<close>

text \<open>
  An inbound websocket frame, after \<^verbatim>\<open>json.loads\<close>: a JSON object whose fields,
  where present, are strings (the schema of the duplex channel).
  \<open>dict_get\<close> is \<^verbatim>\<open>payload.get(k, default)\<close>.
\<close>

type_synonym payload = "string \<rightharpoonup> string"

definition dict_get :: "payload \<Rightarrow> string \<Rightarrow> string \<Rightarrow> string" where
  "dict_get p k d = (case p k of None \<Rightarrow> d | Some v \<Rightarrow> v)"

record chat_response =
  reply :: string
  reply_en :: string
  detected_source :: string

text \<open>The call of line 33, recorded in the trace.\<close>

definition complete :: "world \<Rightarrow> state \<Rightarrow> string option \<Rightarrow> (exn + string) \<times> state" where
  "complete w s user_en = (generate_reply w user_en, emit (Complete user_en) s)"

text \<open>Lines 28 to 31: the inbound text brought to English.\<close>

definition normalize_to_english ::
  "world \<Rightarrow> state \<Rightarrow> string option \<Rightarrow> string \<Rightarrow> (exn + string option) \<times> state" where
  "normalize_to_english w s txt src =
     (if src \<noteq> ''en'' then
        (case translate_text w s txt src ''en'' of
           (Inl e, s1) \<Rightarrow> (Inl e, s1)
         | (Inr t, s1) \<Rightarrow> (Inr (Some t), s1))
      else (Inr txt, s))"

text \<open>Line 34.\<close>

definition out_lang :: "string \<Rightarrow> string \<Rightarrow> string" where
  "out_lang src tgt = (if tgt = ''source'' then src else tgt)"

text \<open>Lines 35 to 38: the English reply brought to the output language.\<close>

definition translate_to_output ::
  "world \<Rightarrow> state \<Rightarrow> string \<Rightarrow> string \<Rightarrow> (exn + string) \<times> state" where
  "translate_to_output w s bot_en ol =
     (if ol \<noteq> ''en'' then translate_text w s (Some bot_en) ''en'' ol
      else (Inr bot_en, s))"

text \<open>
  The body of the websocket loop for one frame, lines 24 to 40. An exception
  in any step leaves the loop; the state reached so far stays, since the
  dictionary belongs to the process and not to the connection.
\<close>

definition process_message :: "world \<Rightarrow> state \<Rightarrow> payload \<Rightarrow> (exn + chat_response) \<times> state" where
  "process_message w s p =
     (let txt = p ''text'';
          src = dict_get p ''source_language'' ''en'';
          tgt = dict_get p ''bot_language'' ''en''
      in
      case normalize_to_english w s txt src of
        (Inl e, s1) \<Rightarrow> (Inl e, s1)
      | (Inr user_en, s1) \<Rightarrow>
          (case complete w s1 user_en of
             (Inl e, s2) \<Rightarrow> (Inl e, s2)
           | (Inr bot_en, s2) \<Rightarrow>
               (case translate_to_output w s2 bot_en (out_lang src tgt) of
                  (Inl e, s3) \<Rightarrow> (Inl e, s3)
                | (Inr bot_out, s3) \<Rightarrow>
                    (Inr \<lparr>reply = bot_out, reply_en = bot_en, detected_source = src\<rparr>, s3))))"

text \<open>
  The request body of the unary endpoint (the pydantic model \<^verbatim>\<open>ChatMessage\<close>, both
  fields validated as strings before the function runs), its success body,
  and the exception the endpoint raises for the framework to answer with.
\<close>

record chat_message =
  msg_text :: string
  source_language :: string

record translate_response =
  translated :: string

datatype http_exception = HTTPException nat string

text \<open>
  \<^verbatim>\<open>translate_api\<close>; the query parameter \<^verbatim>\<open>target\<close> defaults to \<^verbatim>\<open>'en'\<close>. The
  handler \<^verbatim>\<open>except Exception\<close> catches every exception modelled by \<open>exn\<close>.
\<close>

definition translate_api ::
  "world \<Rightarrow> state \<Rightarrow> chat_message \<Rightarrow> string option \<Rightarrow> (http_exception + translate_response) \<times> state" where
  "translate_api w s msg target_param =
     (let target = (case target_param of None \<Rightarrow> ''en'' | Some t \<Rightarrow> t) in
      case translate_text w s (Some (msg_text msg)) (source_language msg) target of
        (Inr out, s1) \<Rightarrow> (Inr \<lparr>translated = out\<rparr>, s1)
      | (Inl e, s1) \<Rightarrow> (Inl (HTTPException 500 (str_exn e)), s1))"

subsection \<open>Sequences of resolve calls and what the trace records\<close>

text \<open>
  A sequence of \<^verbatim>\<open>_get_pipeline\<close> calls, each in the environment of its moment
  (a construction may fail at one time and succeed at another), threading
  the process state and collecting the outcomes.
\<close>

fun resolve_all :: "(world \<times> string) list \<Rightarrow> state \<Rightarrow> (exn + handle) list \<times> state" where
  "resolve_all [] s = ([], s)"
| "resolve_all ((w, key) # cs) s =
     (case get_pipeline w s key of
        (r, s1) \<Rightarrow> (case resolve_all cs s1 of (rs, s2) \<Rightarrow> (r # rs, s2)))"

text \<open>The keys of the calls that returned a handle.\<close>

fun resolved_keys :: "(world \<times> string) list \<Rightarrow> (exn + handle) list \<Rightarrow> string list" where
  "resolved_keys ((w, key) # cs) (Inr h # rs) = key # resolved_keys cs rs"
| "resolved_keys (c # cs) (Inl e # rs) = resolved_keys cs rs"
| "resolved_keys cs rs = []"

text \<open>The identities of the handles stored under a key (line 19), oldest first.\<close>

fun stores_at :: "string \<Rightarrow> event list \<Rightarrow> nat list" where
  "stores_at k [] = []"
| "stores_at k (Store k' i # evs) = (if k' = k then i # stores_at k evs else stores_at k evs)"
| "stores_at k (e # evs) = stores_at k evs"

text \<open>The arguments of the completion calls, and the translation calls.\<close>

fun completion_calls :: "event list \<Rightarrow> string option list" where
  "completion_calls [] = []"
| "completion_calls (Complete u # evs) = u # completion_calls evs"
| "completion_calls (e # evs) = completion_calls evs"

fun translation_calls :: "event list \<Rightarrow> (nat \<times> string option) list" where
  "translation_calls [] = []"
| "translation_calls (Invoke i t # evs) = (i, t) # translation_calls evs"
| "translation_calls (e # evs) = translation_calls evs"

text \<open>
  The events a step added to the trace, and the part of them before and after
  the first completion call.
\<close>

definition new_events :: "state \<Rightarrow> state \<Rightarrow> event list" where
  "new_events s s' = drop (length (trace s)) (trace s')"

fun before_completion :: "event list \<Rightarrow> event list" where
  "before_completion [] = []"
| "before_completion (Complete u # evs) = []"
| "before_completion (e # evs) = e # before_completion evs"

fun after_completion :: "event list \<Rightarrow> event list" where
  "after_completion [] = []"
| "after_completion (Complete u # evs) = evs"
| "after_completion (e # evs) = after_completion evs"

subsection \<open>Invariants of the process state\<close>

text \<open>Every key of the dictionary is a key of \<^verbatim>\<open>LANGUAGE_MODELS\<close>.\<close>

definition cache_wf :: "state \<Rightarrow> bool" where
  "cache_wf s \<longleftrightarrow> dom (translation_pipelines s) \<subseteq> dom LANGUAGE_MODELS"

text \<open>
  The trace holds one store for each key of the dictionary, of the handle the
  dictionary holds, and none for any other key.
\<close>

definition stores_once :: "state \<Rightarrow> bool" where
  "stores_once s \<longleftrightarrow>
     (\<forall>k. stores_at k (trace s) =
           (case translation_pipelines s k of None \<Rightarrow> [] | Some h \<Rightarrow> [hid h]))"

subsection \<open>Statements of the specification, for comparison\<close>

text \<open>
  The specification describes the unary endpoint as "using only step 4's
  logic": the text is translated from English to the target and passed
  through unchanged when the target is \<^verbatim>\<open>"en"\<close>, a failure becoming a 500
  response. This is that description, not the source.
\<close>

definition translate_api_spec ::
  "world \<Rightarrow> state \<Rightarrow> chat_message \<Rightarrow> string option \<Rightarrow> (http_exception + translate_response) \<times> state" where
  "translate_api_spec w s msg target_param =
     (let target = (case target_param of None \<Rightarrow> ''en'' | Some t \<Rightarrow> t) in
      case translate_to_output w s (msg_text msg) target of
        (Inr out, s1) \<Rightarrow> (Inr \<lparr>translated = out\<rparr>, s1)
      | (Inl e, s1) \<Rightarrow> (Inl (HTTPException 500 (str_exn e)), s1))"

text \<open>
  The specification's \<^verbatim>\<open>TranslationError\<close> "wrapping the original cause": an
  exception of that class raised from the cause.
\<close>

definition TranslationError_wrapping :: "exn \<Rightarrow> exn \<Rightarrow> bool" where
  "TranslationError_wrapping c e \<longleftrightarrow> exn_class e = ''TranslationError'' \<and> exn_cause e = Some c"

subsection \<open>Sample environments\<close>

text \<open>
  Two environments for running the definitions on concrete inputs: one whose
  models and completion service answer, one whose models load but fail when
  called.
\<close>

definition sample_translator :: translator where
  "sample_translator t =
     Inr [[''translation_text'' \<mapsto> (case t of None \<Rightarrow> ''T()'' | Some x \<Rightarrow> ''T('' @ x @ '')'')]]"

definition sample_world :: world where
  "sample_world =
     \<lparr>pipeline = (\<lambda>m. Inr sample_translator),
      generate_reply = (\<lambda>t. Inr (case t of None \<Rightarrow> ''R()'' | Some x \<Rightarrow> ''R('' @ x @ '')''))\<rparr>"

definition failing_translator :: translator where
  "failing_translator t = Inl (Exn ''RuntimeError'' ''model failed'' None)"

definition failing_world :: world where
  "failing_world = sample_world\<lparr>pipeline := (\<lambda>m. Inr failing_translator)\<rparr>"

text \<open>The state of a process that has resolved \<^verbatim>\<open>hi->en\<close> once in the first environment.\<close>

definition sample_handle :: handle where
  "sample_handle = \<lparr>hid = 0, call = sample_translator\<rparr>"

definition warm_state :: state where
  "warm_state =
     \<lparr>translation_pipelines = [''hi->en'' \<mapsto> sample_handle],
      next_id = 1,
      trace = [Construct ''Helsinki-NLP/opus-mt-hi-en'', Store ''hi->en'' 0]\<rparr>"

section \<open>Properties\<close>

subsection \<open>The dictionary\<close>

lemma LANGUAGE_MODELS_nonempty: "LANGUAGE_MODELS key = Some m \<Longrightarrow> m \<noteq> []"
  by (auto simp: LANGUAGE_MODELS_def split: if_splits)

lemma get_pipeline_cached:
  "translation_pipelines s key = Some h \<Longrightarrow> get_pipeline w s key = (Inr h, s)"
  by (simp add: get_pipeline_def)

lemma get_pipeline_stores:
  "get_pipeline w s key = (Inr h, s') \<Longrightarrow> translation_pipelines s' key = Some h"
  by (auto simp: get_pipeline_def emit_def Let_def split: option.splits if_splits sum.splits)

lemma cache_wf_init: "cache_wf init_state"
  by (simp add: cache_wf_def init_state_def)

lemma cache_wf_emit: "cache_wf (emit e s) = cache_wf s"
  by (simp add: cache_wf_def emit_def)

lemma cache_wf_get_pipeline:
  "cache_wf s \<Longrightarrow> cache_wf (snd (get_pipeline w s key))"
  by (auto simp: cache_wf_def get_pipeline_def emit_def Let_def split: option.splits if_splits sum.splits)

lemma cache_wf_translate_text:
  "cache_wf s \<Longrightarrow> cache_wf (snd (translate_text w s txt src tgt))"
  using cache_wf_get_pipeline [of s w "src @ ''->'' @ tgt"]
  by (auto simp: translate_text_def Let_def cache_wf_emit split: prod.splits sum.splits list.splits option.splits)

lemma cache_wf_translate_api:
  "cache_wf s \<Longrightarrow> cache_wf (snd (translate_api w s msg tp))"
  using cache_wf_translate_text [of s w "Some (msg_text msg)" "source_language msg" "case tp of None \<Rightarrow> ''en'' | Some t \<Rightarrow> t"]
  by (auto simp: translate_api_def Let_def split: prod.splits sum.splits)

lemma cache_wf_normalize:
  "cache_wf s \<Longrightarrow> cache_wf (snd (normalize_to_english w s txt src))"
  using cache_wf_translate_text [of s w "txt" src "''en''"]
  by (auto simp: normalize_to_english_def split: prod.splits sum.splits)

lemma cache_wf_output:
  "cache_wf s \<Longrightarrow> cache_wf (snd (translate_to_output w s b ol))"
  using cache_wf_translate_text [of s w "Some b" "''en''" ol]
  by (auto simp: translate_to_output_def)

lemma cache_wf_process_message:
  assumes "cache_wf s"
  shows "cache_wf (snd (process_message w s p))"
proof -
  let ?src = "dict_get p ''source_language'' ''en''"
  obtain r1 s1 where n: "normalize_to_english w s (p ''text'') ?src = (r1, s1)"
    by (cases "normalize_to_english w s (p ''text'') ?src")
  have wf1: "cache_wf s1"
    using cache_wf_normalize [OF assms, of w "p ''text''" ?src] n by simp
  show ?thesis
  proof (cases r1)
    case (Inl e)
    with n wf1 show ?thesis by (simp add: process_message_def Let_def)
  next
    case (Inr u)
    have wf2: "cache_wf (emit (Complete u) s1)"
      using wf1 by (simp add: cache_wf_emit)
    show ?thesis
    proof (cases "generate_reply w u")
      case (Inl e)
      with n Inr wf2 show ?thesis by (simp add: process_message_def complete_def Let_def)
    next
      case b: (Inr b)
      let ?ol = "out_lang ?src (dict_get p ''bot_language'' ''en'')"
      have "cache_wf (snd (translate_to_output w (emit (Complete u) s1) b ?ol))"
        by (rule cache_wf_output [OF wf2])
      with n Inr b show ?thesis
        by (auto simp: process_message_def complete_def Let_def split: prod.splits sum.splits)
    qed
  qed
qed

text \<open>
  C3. In a state whose dictionary holds configured keys only (every state the
  process reaches, by the lemmas above), resolving a key that has no entry in
  \<^verbatim>\<open>LANGUAGE_MODELS\<close> raises the \<^verbatim>\<open>ValueError\<close> of line 17, the code's
  configuration error; its message ends with the key, and the state (the
  dictionary and the trace) is the one before the call.
\<close>

theorem resolve_unconfigured_fails:
  "cache_wf s \<Longrightarrow> LANGUAGE_MODELS key = None \<Longrightarrow>
   get_pipeline w s key = (Inl (ValueError (''No translation model configured for '' @ key)), s)"
  by (auto simp: cache_wf_def get_pipeline_def no_model_msg_def split: option.splits)

theorem resolve_unconfigured_fails_witness:
  "cache_wf warm_state \<and> LANGUAGE_MODELS ''fr->en'' = None \<and>
   get_pipeline sample_world warm_state ''fr->en'' =
     (Inl (ValueError ''No translation model configured for fr->en''), warm_state)"
proof -
  have wf: "cache_wf warm_state"
    by (simp add: cache_wf_def warm_state_def LANGUAGE_MODELS_def)
  have un: "LANGUAGE_MODELS ''fr->en'' = None"
    by (simp add: LANGUAGE_MODELS_def)
  from resolve_unconfigured_fails [OF wf un, of sample_world] wf un
  show ?thesis by simp
qed

lemma get_pipeline_sample:
  "get_pipeline sample_world init_state ''hi->en'' = (Inr sample_handle, warm_state)"
  by (simp add: get_pipeline_def sample_world_def init_state_def emit_def LANGUAGE_MODELS_def
      Let_def sample_handle_def warm_state_def)

lemma get_pipeline_configured:
  assumes "LANGUAGE_MODELS key = Some m" and "pipeline w m = Inr f"
  shows "\<exists>h s'. get_pipeline w s key = (Inr h, s')"
proof (cases "translation_pipelines s key")
  case None
  with assms LANGUAGE_MODELS_nonempty [OF assms(1)] show ?thesis
    by (simp add: get_pipeline_def Let_def)
next
  case (Some h)
  then show ?thesis by (simp add: get_pipeline_def)
qed

text \<open>
  C4. When a resolve call returns a handle, the handle is in the dictionary
  under the key, and a second resolve of the key, in any environment, returns
  that very handle (same identity, same callable) and leaves the state as it
  is: nothing is constructed and nothing is stored again. For a configured
  key whose model loads, the first call does return a handle.
\<close>

theorem resolve_twice_same_handle:
  "(get_pipeline w s key = (Inr h, s') \<longrightarrow>
      get_pipeline w' s' key = (Inr h, s') \<and> translation_pipelines s' key = Some h) \<and>
   (LANGUAGE_MODELS key = Some m \<and> pipeline w m = Inr f \<longrightarrow>
      (\<exists>h0 s0. get_pipeline w s key = (Inr h0, s0) \<and> get_pipeline w' s0 key = (Inr h0, s0)))"
proof (intro conjI impI)
  assume g: "get_pipeline w s key = (Inr h, s')"
  show "get_pipeline w' s' key = (Inr h, s')"
    by (rule get_pipeline_cached, rule get_pipeline_stores, rule g)
  show "translation_pipelines s' key = Some h"
    by (rule get_pipeline_stores, rule g)
next
  assume "LANGUAGE_MODELS key = Some m \<and> pipeline w m = Inr f"
  then obtain h0 s0 where g: "get_pipeline w s key = (Inr h0, s0)"
    using get_pipeline_configured [of key m w f s] by auto
  have "get_pipeline w' s0 key = (Inr h0, s0)"
    by (rule get_pipeline_cached, rule get_pipeline_stores, rule g)
  with g show "\<exists>h0 s0. get_pipeline w s key = (Inr h0, s0) \<and> get_pipeline w' s0 key = (Inr h0, s0)"
    by blast
qed

theorem resolve_twice_same_handle_witness:
  "LANGUAGE_MODELS ''hi->en'' = Some ''Helsinki-NLP/opus-mt-hi-en'' \<and>
   pipeline sample_world ''Helsinki-NLP/opus-mt-hi-en'' = Inr sample_translator \<and>
   get_pipeline sample_world init_state ''hi->en'' = (Inr sample_handle, warm_state) \<and>
   get_pipeline failing_world warm_state ''hi->en'' = (Inr sample_handle, warm_state) \<and>
   translation_pipelines warm_state ''hi->en'' = Some sample_handle"
proof -
  note th = resolve_twice_same_handle
    [of sample_world init_state "''hi->en''" sample_handle warm_state failing_world]
  have "get_pipeline failing_world warm_state ''hi->en'' = (Inr sample_handle, warm_state) \<and>
      translation_pipelines warm_state ''hi->en'' = Some sample_handle"
    by (rule th [THEN conjunct1, rule_format]) (rule get_pipeline_sample)
  moreover have "LANGUAGE_MODELS ''hi->en'' = Some ''Helsinki-NLP/opus-mt-hi-en''"
    by (simp add: LANGUAGE_MODELS_def)
  moreover have "pipeline sample_world ''Helsinki-NLP/opus-mt-hi-en'' = Inr sample_translator"
    by (simp add: sample_world_def)
  ultimately show ?thesis
    using get_pipeline_sample by simp
qed

subsection \<open>Stores\<close>

lemma stores_at_append: "stores_at k (xs @ ys) = stores_at k xs @ stores_at k ys"
  by (induction k xs rule: stores_at.induct) simp_all

lemma stores_once_init: "stores_once init_state"
  by (simp add: stores_once_def init_state_def)

lemma stores_onceD:
  "stores_once s \<Longrightarrow>
   stores_at k (trace s) = (case translation_pipelines s k of None \<Rightarrow> [] | Some h \<Rightarrow> [hid h])"
  by (simp add: stores_once_def)

lemma stores_once_miss:
  "stores_once s \<Longrightarrow> translation_pipelines s k = None \<Longrightarrow> stores_at k (trace s) = []"
  by (simp add: stores_onceD)

lemma stores_once_get_pipeline:
  assumes inv: "stores_once s"
  shows "stores_once (snd (get_pipeline w s key))"
proof (cases "translation_pipelines s key")
  case (Some h)
  with inv show ?thesis by (simp add: get_pipeline_def)
next
  case None
  note miss = stores_once_miss [OF inv None]
  show ?thesis
  proof (cases "LANGUAGE_MODELS key")
    case no_model: None
    with None inv show ?thesis by (simp add: get_pipeline_def)
  next
    case (Some m)
    show ?thesis
    proof (cases "m = []")
      case True
      with None Some inv show ?thesis by (simp add: get_pipeline_def)
    next
      case False
      show ?thesis
      proof (cases "pipeline w m")
        case (Inl e)
        have "\<And>k. stores_at k (trace s @ [Construct m]) = stores_at k (trace s)"
          by (simp add: stores_at_append)
        with None Some False Inl inv show ?thesis
          by (simp add: get_pipeline_def Let_def emit_def stores_once_def)
      next
        case (Inr f)
        have "stores_at k (trace s @ [Construct m, Store key (next_id s)]) =
              (case ((translation_pipelines s)(key \<mapsto> \<lparr>hid = next_id s, call = f\<rparr>)) k of
                 None \<Rightarrow> [] | Some h \<Rightarrow> [hid h])" for k
          using stores_onceD [OF inv, of k] miss None by (simp add: stores_at_append)
        with None Some False Inr show ?thesis
          by (simp add: get_pipeline_def Let_def emit_def stores_once_def)
      qed
    qed
  qed
qed

lemma dom_get_pipeline:
  "dom (translation_pipelines (snd (get_pipeline w s key))) =
   dom (translation_pipelines s) \<union> (case fst (get_pipeline w s key) of Inl e \<Rightarrow> {} | Inr h \<Rightarrow> {key})"
  by (auto simp: get_pipeline_def emit_def Let_def split: option.splits sum.splits if_splits)

lemma resolve_all_inv:
  "stores_once s \<Longrightarrow>
   stores_once (snd (resolve_all cs s)) \<and>
   dom (translation_pipelines (snd (resolve_all cs s))) =
     dom (translation_pipelines s) \<union> set (resolved_keys cs (fst (resolve_all cs s)))"
proof (induction cs arbitrary: s)
  case Nil
  then show ?case by simp
next
  case (Cons c cs)
  obtain w key where c: "c = (w, key)" by (cases c)
  obtain r s1 where g: "get_pipeline w s key = (r, s1)" by (cases "get_pipeline w s key")
  obtain rs s2 where a: "resolve_all cs s1 = (rs, s2)" by (cases "resolve_all cs s1")
  have inv1: "stores_once s1"
    using stores_once_get_pipeline [OF Cons.prems, of w key] g by simp
  have d1: "dom (translation_pipelines s1) =
            dom (translation_pipelines s) \<union> (case r of Inl e \<Rightarrow> {} | Inr h \<Rightarrow> {key})"
    using dom_get_pipeline [of w s key] g by simp
  from Cons.IH [OF inv1] a
  have ih: "stores_once s2"
    "dom (translation_pipelines s2) = dom (translation_pipelines s1) \<union> set (resolved_keys cs rs)"
    by simp_all
  show ?case
    using ih d1 by (cases r) (auto simp: c g a)
qed

text \<open>
  C7, as amended. After any sequence of resolve calls from the start of the
  process, the stores made under a key are exactly: the one store of the
  handle the dictionary holds for it, if it holds one, and none otherwise. The
  number of stores under a key is 1 if some call of the sequence returned a
  handle for it and 0 if every call for it failed (an unconfigured pair, or
  a construction that raised).
\<close>

theorem cache_stores_once_per_resolved_key:
  "stores_at k (trace (snd (resolve_all cs init_state))) =
     (case translation_pipelines (snd (resolve_all cs init_state)) k of
        None \<Rightarrow> [] | Some h \<Rightarrow> [hid h]) \<and>
   length (stores_at k (trace (snd (resolve_all cs init_state)))) =
     (if k \<in> set (resolved_keys cs (fst (resolve_all cs init_state))) then 1 else 0)"
proof -
  let ?s = "snd (resolve_all cs init_state)"
  have inv: "stores_once ?s"
    and d: "dom (translation_pipelines ?s) = set (resolved_keys cs (fst (resolve_all cs init_state)))"
    using resolve_all_inv [OF stores_once_init, of cs] by (simp_all add: init_state_def)
  have st: "stores_at k (trace ?s) =
      (case translation_pipelines ?s k of None \<Rightarrow> [] | Some h \<Rightarrow> [hid h])"
    by (rule stores_onceD [OF inv])
  have "length (stores_at k (trace ?s)) = (if k \<in> dom (translation_pipelines ?s) then 1 else 0)"
    unfolding st by (auto split: option.splits)
  with st d show ?thesis by simp
qed

theorem cache_stores_once_per_resolved_key_witness:
  "stores_at ''hi->en''
     (trace (snd (resolve_all
        [(sample_world, ''hi->en''), (sample_world, ''fr->en''), (failing_world, ''hi->en'')]
        init_state))) = [0] \<and>
   ''hi->en'' \<in> set (resolved_keys
        [(sample_world, ''hi->en''), (sample_world, ''fr->en''), (failing_world, ''hi->en'')]
        (fst (resolve_all
        [(sample_world, ''hi->en''), (sample_world, ''fr->en''), (failing_world, ''hi->en'')]
        init_state)))"
proof -
  have g2: "get_pipeline sample_world warm_state ''fr->en'' =
      (Inl (ValueError (no_model_msg ''fr->en'')), warm_state)"
    by (simp add: get_pipeline_def warm_state_def LANGUAGE_MODELS_def)
  have g3: "get_pipeline failing_world warm_state ''hi->en'' = (Inr sample_handle, warm_state)"
    by (simp add: get_pipeline_cached warm_state_def)
  have tr: "trace warm_state = [Construct ''Helsinki-NLP/opus-mt-hi-en'', Store ''hi->en'' 0]"
    by (simp add: warm_state_def)
  show ?thesis
    using cache_stores_once_per_resolved_key [of "''hi->en''"
      "[(sample_world, ''hi->en''), (sample_world, ''fr->en''), (failing_world, ''hi->en'')]"]
    by (simp add: get_pipeline_sample g2 g3 tr)
qed

text \<open>
  C7 as stated fails: one resolve call with the unconfigured key \<^verbatim>\<open>fr->en\<close> is
  a sequence with one distinct key and no mutation of the dictionary.
\<close>

theorem unconfigured_key_never_stored_counterexample:
  "''fr->en'' \<in> set (map snd [(sample_world, ''fr->en'')]) \<and>
   length (stores_at ''fr->en''
     (trace (snd (resolve_all [(sample_world, ''fr->en'')] init_state)))) = 0 \<and>
   snd (resolve_all [(sample_world, ''fr->en'')] init_state) = init_state"
  by (simp add: get_pipeline_def init_state_def LANGUAGE_MODELS_def no_model_msg_def)

subsection \<open>Traces\<close>

lemma completion_calls_append:
  "completion_calls (xs @ ys) = completion_calls xs @ completion_calls ys"
  by (induction xs rule: completion_calls.induct) simp_all

lemma translation_calls_append:
  "translation_calls (xs @ ys) = translation_calls xs @ translation_calls ys"
  by (induction xs rule: translation_calls.induct) simp_all

lemma after_completion_skip:
  "completion_calls pre = [] \<Longrightarrow> after_completion (pre @ ys) = after_completion ys"
  by (induction pre rule: completion_calls.induct) simp_all

lemma new_events_append: "trace s' = trace s @ evs \<Longrightarrow> new_events s s' = evs"
  by (simp add: new_events_def)

lemma new_events_emit: "new_events s (emit e s) = [e]"
  by (simp add: new_events_def emit_def)

lemma get_pipeline_trace:
  "\<exists>evs. trace (snd (get_pipeline w s key)) = trace s @ evs \<and>
         completion_calls evs = [] \<and> translation_calls evs = []"
  by (auto simp: get_pipeline_def emit_def Let_def split: option.splits sum.splits)

lemma translate_text_trace:
  "\<exists>evs. trace (snd (translate_text w s t src tgt)) = trace s @ evs \<and> completion_calls evs = []"
proof -
  obtain r s1 where g: "get_pipeline w s (src @ ''->'' @ tgt) = (r, s1)"
    by (cases "get_pipeline w s (src @ ''->'' @ tgt)")
  obtain evs where e: "trace s1 = trace s @ evs" "completion_calls evs = []"
    using get_pipeline_trace [of w s "src @ ''->'' @ tgt"] g by auto
  show ?thesis
  proof (cases r)
    case (Inl x)
    with g e show ?thesis by (simp add: translate_text_def)
  next
    case (Inr pipe)
    have "trace (snd (translate_text w s t src tgt)) = trace s @ (evs @ [Invoke (hid pipe) t])"
      using g Inr e
      by (simp add: translate_text_def Let_def emit_def split: sum.splits list.splits option.splits)
    moreover have "completion_calls (evs @ [Invoke (hid pipe) t]) = []"
      using e by (simp add: completion_calls_append)
    ultimately show ?thesis by blast
  qed
qed

lemma normalize_trace:
  "\<exists>evs. trace (snd (normalize_to_english w s t src)) = trace s @ evs \<and> completion_calls evs = []"
  using translate_text_trace [of w s t src "''en''"]
  by (auto simp: normalize_to_english_def split: prod.splits sum.splits)

lemma translate_to_output_trace:
  "\<exists>evs. trace (snd (translate_to_output w s b ol)) = trace s @ evs \<and> completion_calls evs = []"
  using translate_text_trace [of w s "Some b" "''en''" ol]
  by (auto simp: translate_to_output_def)

subsection \<open>The message pipeline\<close>

text \<open>What one frame does when both languages come out as English.\<close>

lemma process_message_english:
  assumes "dict_get p ''source_language'' ''en'' = ''en''"
    and "out_lang ''en'' (dict_get p ''bot_language'' ''en'') = ''en''"
  shows "process_message w s p =
    (case generate_reply w (p ''text'') of
       Inl e \<Rightarrow> Inl e
     | Inr b \<Rightarrow> Inr \<lparr>reply = b, reply_en = b, detected_source = ''en''\<rparr>,
     emit (Complete (p ''text'')) s)"
  using assms
  by (simp add: process_message_def normalize_to_english_def complete_def
      translate_to_output_def Let_def split: sum.splits)

text \<open>
  C5. A frame with \<^verbatim>\<open>source_language\<close> and \<^verbatim>\<open>bot_language\<close> both \<^verbatim>\<open>"en"\<close>: the only
  event added to the trace is one completion call with the frame's text, so
  there is no translation call and the dictionary is untouched; if the
  completion returns \<open>b\<close> the response is \<open>b\<close> in both \<^verbatim>\<open>reply\<close> and
  \<^verbatim>\<open>reply_en\<close> with \<^verbatim>\<open>detected_source\<close> \<^verbatim>\<open>"en"\<close>, and if it raises, its exception
  leaves the loop.
\<close>

theorem english_to_english_only_completes:
  assumes "p ''source_language'' = Some ''en''" and "p ''bot_language'' = Some ''en''"
  shows "process_message w s p =
      (case generate_reply w (p ''text'') of
         Inl e \<Rightarrow> Inl e
       | Inr b \<Rightarrow> Inr \<lparr>reply = b, reply_en = b, detected_source = ''en''\<rparr>,
       emit (Complete (p ''text'')) s) \<and>
    new_events s (snd (process_message w s p)) = [Complete (p ''text'')] \<and>
    translation_calls (new_events s (snd (process_message w s p))) = [] \<and>
    completion_calls (new_events s (snd (process_message w s p))) = [p ''text'']"
proof -
  have "process_message w s p =
      (case generate_reply w (p ''text'') of
         Inl e \<Rightarrow> Inl e
       | Inr b \<Rightarrow> Inr \<lparr>reply = b, reply_en = b, detected_source = ''en''\<rparr>,
       emit (Complete (p ''text'')) s)"
    by (rule process_message_english) (simp_all add: assms dict_get_def out_lang_def)
  then show ?thesis by (simp add: new_events_emit)
qed

theorem english_to_english_only_completes_witness:
  "process_message sample_world warm_state
     [''text'' \<mapsto> ''Hello'', ''source_language'' \<mapsto> ''en'', ''bot_language'' \<mapsto> ''en''] =
     (Inr \<lparr>reply = ''R(Hello)'', reply_en = ''R(Hello)'', detected_source = ''en''\<rparr>,
      emit (Complete (Some ''Hello'')) warm_state) \<and>
   new_events warm_state (snd (process_message sample_world warm_state
     [''text'' \<mapsto> ''Hello'', ''source_language'' \<mapsto> ''en'', ''bot_language'' \<mapsto> ''en''])) =
     [Complete (Some ''Hello'')]"
proof -
  let ?p = "[''text'' \<mapsto> ''Hello'', ''source_language'' \<mapsto> ''en'', ''bot_language'' \<mapsto> ''en'']"
  have src: "?p ''source_language'' = Some ''en''" by simp
  have bot: "?p ''bot_language'' = Some ''en''" by simp
  have tx: "?p ''text'' = Some ''Hello''" by simp
  have gen: "generate_reply sample_world (Some ''Hello'') = Inr ''R(Hello)''"
    by (simp add: sample_world_def)
  note th = english_to_english_only_completes [of ?p sample_world warm_state]
  from th src bot
  have "process_message sample_world warm_state ?p =
      (case generate_reply sample_world (?p ''text'') of
         Inl e \<Rightarrow> Inl e
       | Inr b \<Rightarrow> Inr \<lparr>reply = b, reply_en = b, detected_source = ''en''\<rparr>,
       emit (Complete (?p ''text'')) warm_state)"
    and "new_events warm_state (snd (process_message sample_world warm_state ?p)) =
      [Complete (?p ''text'')]"
    by blast+
  then show ?thesis by (simp add: gen)
qed

text \<open>
  C6. A frame whose \<^verbatim>\<open>bot_language\<close> is \<^verbatim>\<open>"source"\<close> is processed as the same
  frame with \<^verbatim>\<open>bot_language\<close> set to its source language: line 34 gives
  \<^verbatim>\<open>out_lang = src\<close>. With source language \<^verbatim>\<open>"en"\<close> the output language is
  \<^verbatim>\<open>"en"\<close>, the reply is the English reply, and the only event is the completion
  call: no output translation.
\<close>

theorem source_sentinel_echoes_source_language:
  assumes "p ''bot_language'' = Some ''source''"
  shows "out_lang (dict_get p ''source_language'' ''en'') (dict_get p ''bot_language'' ''en'') =
      dict_get p ''source_language'' ''en'' \<and>
    process_message w s p =
      process_message w s (p(''bot_language'' \<mapsto> dict_get p ''source_language'' ''en'')) \<and>
    (p ''source_language'' = Some ''en'' \<longrightarrow>
       process_message w s p =
         (case generate_reply w (p ''text'') of
            Inl e \<Rightarrow> Inl e
          | Inr b \<Rightarrow> Inr \<lparr>reply = b, reply_en = b, detected_source = ''en''\<rparr>,
          emit (Complete (p ''text'')) s))"
proof (intro conjI impI)
  show "out_lang (dict_get p ''source_language'' ''en'') (dict_get p ''bot_language'' ''en'') =
      dict_get p ''source_language'' ''en''"
    using assms by (simp add: out_lang_def dict_get_def)
  show "process_message w s p =
      process_message w s (p(''bot_language'' \<mapsto> dict_get p ''source_language'' ''en''))"
    using assms
    by (simp add: process_message_def out_lang_def dict_get_def Let_def
        cong: prod.case_cong sum.case_cong)
  assume "p ''source_language'' = Some ''en''"
  then show "process_message w s p =
         (case generate_reply w (p ''text'') of
            Inl e \<Rightarrow> Inl e
          | Inr b \<Rightarrow> Inr \<lparr>reply = b, reply_en = b, detected_source = ''en''\<rparr>,
          emit (Complete (p ''text'')) s)"
    using assms by (intro process_message_english) (simp_all add: dict_get_def out_lang_def)
qed

theorem source_sentinel_echoes_source_language_witness:
  "out_lang ''en'' ''source'' = ''en'' \<and>
   process_message sample_world warm_state
     [''text'' \<mapsto> ''Hello'', ''source_language'' \<mapsto> ''en'', ''bot_language'' \<mapsto> ''source''] =
     (Inr \<lparr>reply = ''R(Hello)'', reply_en = ''R(Hello)'', detected_source = ''en''\<rparr>,
      emit (Complete (Some ''Hello'')) warm_state)"
proof -
  let ?p = "[''text'' \<mapsto> ''Hello'', ''source_language'' \<mapsto> ''en'', ''bot_language'' \<mapsto> ''source'']"
  have src: "?p ''source_language'' = Some ''en''" by simp
  have bot: "?p ''bot_language'' = Some ''source''" by simp
  have tx: "?p ''text'' = Some ''Hello''" by simp
  have gen: "generate_reply sample_world (Some ''Hello'') = Inr ''R(Hello)''"
    by (simp add: sample_world_def)
  have d: "dict_get ?p ''source_language'' ''en'' = ''en''"
    "dict_get ?p ''bot_language'' ''en'' = ''source''"
    by (simp_all add: dict_get_def)
  note th = source_sentinel_echoes_source_language [of ?p sample_world warm_state]
  from th src bot
  have "out_lang (dict_get ?p ''source_language'' ''en'') (dict_get ?p ''bot_language'' ''en'') =
      dict_get ?p ''source_language'' ''en''"
    and "process_message sample_world warm_state ?p =
      (case generate_reply sample_world (?p ''text'') of
         Inl e \<Rightarrow> Inl e
       | Inr b \<Rightarrow> Inr \<lparr>reply = b, reply_en = b, detected_source = ''en''\<rparr>,
       emit (Complete (?p ''text'')) warm_state)"
    by blast+
  then show ?thesis by (simp add: gen d)
qed

text \<open>The events of one frame whose output language is English.\<close>

lemma after_completion_english_output:
  assumes "out_lang (dict_get p ''source_language'' ''en'') (dict_get p ''bot_language'' ''en'') = ''en''"
  shows "after_completion (new_events s (snd (process_message w s p))) = []"
proof -
  let ?src = "dict_get p ''source_language'' ''en''"
  obtain r1 s1 where n: "normalize_to_english w s (p ''text'') ?src = (r1, s1)"
    by (cases "normalize_to_english w s (p ''text'') ?src")
  obtain pre where pre: "trace s1 = trace s @ pre" "completion_calls pre = []"
    using normalize_trace [of w s "p ''text''" ?src] n by auto
  show ?thesis
  proof (cases r1)
    case (Inl e)
    then have "snd (process_message w s p) = s1"
      using n by (simp add: process_message_def Let_def)
    then have "new_events s (snd (process_message w s p)) = pre"
      using pre by (simp add: new_events_append)
    then show ?thesis
      using after_completion_skip [OF pre(2), of "[]"] by simp
  next
    case (Inr u)
    then have "snd (process_message w s p) = emit (Complete u) s1"
      using n assms
      by (simp add: process_message_def Let_def complete_def translate_to_output_def
          split: sum.splits)
    then have "new_events s (snd (process_message w s p)) = pre @ [Complete u]"
      using pre by (simp add: new_events_def emit_def)
    then show ?thesis
      using after_completion_skip [OF pre(2), of "[Complete u]"] by simp
  qed
qed

lemma reply_is_english_reply:
  assumes "out_lang (dict_get p ''source_language'' ''en'') (dict_get p ''bot_language'' ''en'') = ''en''"
    and "process_message w s p = (Inr r, s')"
  shows "reply r = reply_en r"
  using assms
  by (auto simp: process_message_def Let_def complete_def translate_to_output_def
      split: prod.splits sum.splits)

text \<open>Two frames run in the first sample environment.\<close>

lemma hi_frame:
  "process_message sample_world init_state [''text'' \<mapsto> ''namaste'', ''source_language'' \<mapsto> ''hi''] =
   (Inr \<lparr>reply = ''R(T(namaste))'', reply_en = ''R(T(namaste))'', detected_source = ''hi''\<rparr>,
    emit (Complete (Some ''T(namaste)'')) (emit (Invoke 0 (Some ''namaste'')) warm_state))"
  by ((simp add: process_message_def normalize_to_english_def complete_def translate_to_output_def
        translate_text_def get_pipeline_def emit_def out_lang_def dict_get_def Let_def
        LANGUAGE_MODELS_def sample_world_def sample_translator_def init_state_def
        warm_state_def sample_handle_def)+)

lemma en_hi_frame:
  "process_message sample_world init_state [''text'' \<mapsto> ''Hello'', ''bot_language'' \<mapsto> ''hi''] =
   (Inr \<lparr>reply = ''T(R(Hello))'', reply_en = ''R(Hello)'', detected_source = ''en''\<rparr>,
    \<lparr>translation_pipelines = [''en->hi'' \<mapsto> sample_handle],
     next_id = 1,
     trace = [Complete (Some ''Hello''), Construct ''Helsinki-NLP/opus-mt-en-hi'',
              Store ''en->hi'' 0, Invoke 0 (Some ''R(Hello)'')]\<rparr>)"
  by ((simp add: process_message_def normalize_to_english_def complete_def translate_to_output_def
        translate_text_def get_pipeline_def emit_def out_lang_def dict_get_def Let_def
        LANGUAGE_MODELS_def sample_world_def sample_translator_def init_state_def
        sample_handle_def)+)

text \<open>
  C9. A frame without the \<^verbatim>\<open>bot_language\<close> field is processed as the same frame
  with \<^verbatim>\<open>bot_language\<close> \<^verbatim>\<open>"en"\<close>: same result and same state. The output language
  is \<^verbatim>\<open>"en"\<close>, no event follows the completion call (so there is no output
  translation), and a response carries the English reply in \<^verbatim>\<open>reply\<close>.
\<close>

theorem missing_bot_language_is_english:
  assumes "p ''bot_language'' = None"
  shows "process_message w s p = process_message w s (p(''bot_language'' \<mapsto> ''en'')) \<and>
    out_lang (dict_get p ''source_language'' ''en'') (dict_get p ''bot_language'' ''en'') = ''en'' \<and>
    after_completion (new_events s (snd (process_message w s p))) = [] \<and>
    (\<forall>r s'. process_message w s p = (Inr r, s') \<longrightarrow> reply r = reply_en r)"
proof -
  have ol: "out_lang (dict_get p ''source_language'' ''en'') (dict_get p ''bot_language'' ''en'') = ''en''"
    using assms by (simp add: out_lang_def dict_get_def)
  have "process_message w s p = process_message w s (p(''bot_language'' \<mapsto> ''en''))"
    using assms by (simp add: process_message_def dict_get_def Let_def)
  with ol after_completion_english_output [OF ol] reply_is_english_reply [OF ol]
  show ?thesis by blast
qed

theorem missing_bot_language_is_english_witness:
  "[''text'' \<mapsto> ''namaste'', ''source_language'' \<mapsto> ''hi''] ''bot_language'' = None \<and>
   process_message sample_world init_state
     [''text'' \<mapsto> ''namaste'', ''source_language'' \<mapsto> ''hi'', ''bot_language'' \<mapsto> ''en''] =
   (Inr \<lparr>reply = ''R(T(namaste))'', reply_en = ''R(T(namaste))'', detected_source = ''hi''\<rparr>,
    emit (Complete (Some ''T(namaste)'')) (emit (Invoke 0 (Some ''namaste'')) warm_state)) \<and>
   after_completion (new_events init_state (snd (process_message sample_world init_state
     [''text'' \<mapsto> ''namaste'', ''source_language'' \<mapsto> ''hi'']))) = []"
proof -
  let ?p = "[''text'' \<mapsto> ''namaste'', ''source_language'' \<mapsto> ''hi'']"
  have h: "?p ''bot_language'' = None" by simp
  note th = missing_bot_language_is_english [of ?p sample_world init_state]
  from th h
  have "process_message sample_world init_state ?p =
      process_message sample_world init_state (?p(''bot_language'' \<mapsto> ''en''))"
    and "after_completion (new_events init_state (snd (process_message sample_world init_state ?p))) = []"
    by blast+
  with h hi_frame show ?thesis by simp
qed

text \<open>
  C10. A frame without the \<^verbatim>\<open>source_language\<close> field is processed as the same
  frame with \<^verbatim>\<open>source_language\<close> \<^verbatim>\<open>"en"\<close>: same result and same state. No event
  precedes the completion call (so there is no inbound translation), and a
  response has \<^verbatim>\<open>detected_source\<close> \<^verbatim>\<open>"en"\<close>.
\<close>

theorem missing_source_language_is_english:
  assumes "p ''source_language'' = None"
  shows "process_message w s p = process_message w s (p(''source_language'' \<mapsto> ''en'')) \<and>
    before_completion (new_events s (snd (process_message w s p))) = [] \<and>
    (\<forall>r s'. process_message w s p = (Inr r, s') \<longrightarrow> detected_source r = ''en'')"
proof (intro conjI allI impI)
  show "process_message w s p = process_message w s (p(''source_language'' \<mapsto> ''en''))"
    using assms by (simp add: process_message_def dict_get_def Let_def)
next
  let ?ol = "out_lang ''en'' (dict_get p ''bot_language'' ''en'')"
  let ?s2 = "emit (Complete (p ''text'')) s"
  show "before_completion (new_events s (snd (process_message w s p))) = []"
  proof (cases "generate_reply w (p ''text'')")
    case (Inl e)
    then have "snd (process_message w s p) = ?s2"
      using assms
      by (simp add: process_message_def dict_get_def Let_def normalize_to_english_def complete_def)
    then show ?thesis by (simp add: new_events_emit)
  next
    case (Inr b)
    obtain post where post: "trace (snd (translate_to_output w ?s2 b ?ol)) = trace ?s2 @ post"
      using translate_to_output_trace [of w ?s2 b ?ol] by auto
    have "snd (process_message w s p) = snd (translate_to_output w ?s2 b ?ol)"
      using assms Inr
      by (simp add: process_message_def dict_get_def Let_def normalize_to_english_def complete_def
          split: prod.splits sum.splits)
    then have "new_events s (snd (process_message w s p)) = Complete (p ''text'') # post"
      using post by (simp add: new_events_def emit_def)
    then show ?thesis by simp
  qed
next
  fix r s'
  assume "process_message w s p = (Inr r, s')"
  then show "detected_source r = ''en''"
    using assms
    by (auto simp: process_message_def dict_get_def Let_def split: prod.splits sum.splits)
qed

theorem missing_source_language_is_english_witness:
  "[''text'' \<mapsto> ''Hello'', ''bot_language'' \<mapsto> ''hi''] ''source_language'' = None \<and>
   fst (process_message sample_world init_state
     [''text'' \<mapsto> ''Hello'', ''bot_language'' \<mapsto> ''hi'', ''source_language'' \<mapsto> ''en'']) =
     Inr \<lparr>reply = ''T(R(Hello))'', reply_en = ''R(Hello)'', detected_source = ''en''\<rparr> \<and>
   before_completion (new_events init_state (snd (process_message sample_world init_state
     [''text'' \<mapsto> ''Hello'', ''bot_language'' \<mapsto> ''hi'']))) = []"
proof -
  let ?p = "[''text'' \<mapsto> ''Hello'', ''bot_language'' \<mapsto> ''hi'']"
  have h: "?p ''source_language'' = None" by simp
  note th = missing_source_language_is_english [of ?p sample_world init_state]
  from th h
  have "process_message sample_world init_state ?p =
      process_message sample_world init_state (?p(''source_language'' \<mapsto> ''en''))"
    and "before_completion (new_events init_state (snd (process_message sample_world init_state ?p))) = []"
    by blast+
  with h en_hi_frame show ?thesis by simp
qed

subsection \<open>Translation failures and the unary endpoint\<close>

lemma exn_not_own_cause: "exn_cause e \<noteq> Some e"
proof (induction e)
  case (Exn c a x)
  show ?case
  proof
    assume "exn_cause (Exn c a x) = Some (Exn c a x)"
    then have x: "x = Some (Exn c a x)" by simp
    then have "Exn c a x \<in> set_option x" by (metis option.set_intros)
    from Exn.IH [OF this] x show False by simp
  qed
qed

lemma translate_text_call_fails:
  assumes "get_pipeline w s (src @ ''->'' @ tgt) = (Inr pipe, s1)" and "call pipe t = Inl e"
  shows "translate_text w s t src tgt = (Inl e, emit (Invoke (hid pipe) t) s1)"
  using assms by (simp add: translate_text_def Let_def)

lemma translate_text_first_candidate:
  assumes "get_pipeline w s (src @ ''->'' @ tgt) = (Inr pipe, s1)"
    and "call pipe t = Inr (c # cs)" and "c ''translation_text'' = Some out"
  shows "translate_text w s t src tgt = (Inr out, emit (Invoke (hid pipe) t) s1)"
  using assms by (simp add: translate_text_def Let_def)

lemma get_pipeline_en_hi:
  "get_pipeline w init_state ''en->hi'' =
     (case pipeline w ''Helsinki-NLP/opus-mt-en-hi'' of
        Inl e \<Rightarrow> (Inl e, emit (Construct ''Helsinki-NLP/opus-mt-en-hi'') init_state)
      | Inr f \<Rightarrow>
          (Inr \<lparr>hid = 0, call = f\<rparr>,
           \<lparr>translation_pipelines = [''en->hi'' \<mapsto> \<lparr>hid = 0, call = f\<rparr>],
            next_id = 1,
            trace = [Construct ''Helsinki-NLP/opus-mt-en-hi'', Store ''en->hi'' 0]\<rparr>))"
  by (simp add: get_pipeline_def init_state_def emit_def LANGUAGE_MODELS_def Let_def
      split: sum.splits)

text \<open>
  C2, as amended. When the pair resolves to a pipeline and the call of that
  pipeline raises \<open>e\<close>, \<^verbatim>\<open>translate_text\<close> raises \<open>e\<close> itself: the same
  class, argument and cause, which is not an exception raised from \<open>e\<close>.
\<close>

theorem model_failure_propagates_unwrapped:
  assumes "get_pipeline w s (src @ ''->'' @ tgt) = (Inr pipe, s1)" and "call pipe t = Inl e"
  shows "translate_text w s t src tgt = (Inl e, emit (Invoke (hid pipe) t) s1) \<and>
    \<not> TranslationError_wrapping e e"
  using translate_text_call_fails [OF assms]
  by (simp add: TranslationError_wrapping_def exn_not_own_cause)

theorem model_failure_propagates_unwrapped_witness:
  "get_pipeline failing_world init_state (''en'' @ ''->'' @ ''hi'') =
     (Inr \<lparr>hid = 0, call = failing_translator\<rparr>,
      \<lparr>translation_pipelines = [''en->hi'' \<mapsto> \<lparr>hid = 0, call = failing_translator\<rparr>],
       next_id = 1,
       trace = [Construct ''Helsinki-NLP/opus-mt-en-hi'', Store ''en->hi'' 0]\<rparr>) \<and>
   call \<lparr>hid = 0, call = failing_translator\<rparr> (Some ''Hello'') =
     Inl (Exn ''RuntimeError'' ''model failed'' None) \<and>
   translate_text failing_world init_state (Some ''Hello'') ''en'' ''hi'' =
     (Inl (Exn ''RuntimeError'' ''model failed'' None),
      \<lparr>translation_pipelines = [''en->hi'' \<mapsto> \<lparr>hid = 0, call = failing_translator\<rparr>],
       next_id = 1,
       trace = [Construct ''Helsinki-NLP/opus-mt-en-hi'', Store ''en->hi'' 0,
                Invoke 0 (Some ''Hello'')]\<rparr>)"
proof -
  let ?h = "\<lparr>hid = 0, call = failing_translator\<rparr>"
  let ?s1 = "\<lparr>translation_pipelines = [''en->hi'' \<mapsto> ?h], next_id = 1,
       trace = [Construct ''Helsinki-NLP/opus-mt-en-hi'', Store ''en->hi'' 0]\<rparr>"
  have g: "get_pipeline failing_world init_state (''en'' @ ''->'' @ ''hi'') = (Inr ?h, ?s1)"
    using get_pipeline_en_hi [of failing_world]
    by (simp add: failing_world_def sample_world_def)
  have c: "call ?h (Some ''Hello'') = Inl (Exn ''RuntimeError'' ''model failed'' None)"
    by (simp add: failing_translator_def)
  from model_failure_propagates_unwrapped [OF g c] g c
  show ?thesis by (simp add: emit_def)
qed

text \<open>
  C2 as stated fails: in the environment whose models raise when called, the
  caller of \<^verbatim>\<open>translate_text\<close> gets the model's own \<^verbatim>\<open>RuntimeError\<close>, and not a
  \<^verbatim>\<open>TranslationError\<close> raised from it.
\<close>

theorem model_failure_not_wrapped_counterexample:
  "fst (translate_text failing_world init_state (Some ''Hello'') ''en'' ''hi'') =
     Inl (Exn ''RuntimeError'' ''model failed'' None) \<and>
   \<not> TranslationError_wrapping (Exn ''RuntimeError'' ''model failed'' None)
       (Exn ''RuntimeError'' ''model failed'' None)"
  by (simp add: translate_text_def get_pipeline_en_hi failing_world_def sample_world_def
      failing_translator_def TranslationError_wrapping_def Let_def)

lemma translate_api_trace:
  "completion_calls (new_events s (snd (translate_api w s msg tp))) = []"
proof -
  let ?target = "case tp of None \<Rightarrow> ''en'' | Some t \<Rightarrow> t"
  let ?t = "translate_text w s (Some (msg_text msg)) (source_language msg) ?target"
  obtain evs where e: "trace (snd ?t) = trace s @ evs" "completion_calls evs = []"
    using translate_text_trace [of w s "Some (msg_text msg)" "source_language msg" ?target] by auto
  have "snd (translate_api w s msg tp) = snd ?t"
    by (simp add: translate_api_def Let_def split: prod.splits sum.splits)
  with e show ?thesis by (simp add: new_events_append)
qed

text \<open>
  C1, as amended. The endpoint translates the text from the request's own
  \<^verbatim>\<open>source_language\<close> to the target: when the pair
  \<^verbatim>\<open>source_language->target\<close> resolves to a pipeline whose first candidate
  carries \<open>out\<close>, the response is \<^verbatim>\<open>{translated: out}\<close> and the pipeline was
  called once with the text. For source language \<^verbatim>\<open>"en"\<close> and a target other
  than \<^verbatim>\<open>"en"\<close> this is the specification's step 4. No request makes a
  completion call.
\<close>

theorem translate_api_translates_source_to_target:
  "completion_calls (new_events s (snd (translate_api w s msg tp))) = [] \<and>
   (source_language msg = ''en'' \<and> target \<noteq> ''en'' \<longrightarrow>
      translate_api w s msg (Some target) = translate_api_spec w s msg (Some target)) \<and>
   (get_pipeline w s (source_language msg @ ''->'' @ target) = (Inr pipe, s1) \<and>
    call pipe (Some (msg_text msg)) = Inr (c # cs) \<and> c ''translation_text'' = Some out \<longrightarrow>
      translate_api w s msg (Some target) =
        (Inr \<lparr>translated = out\<rparr>, emit (Invoke (hid pipe) (Some (msg_text msg))) s1))"
proof (intro conjI impI)
  show "completion_calls (new_events s (snd (translate_api w s msg tp))) = []"
    by (rule translate_api_trace)
next
  assume "source_language msg = ''en'' \<and> target \<noteq> ''en''"
  then show "translate_api w s msg (Some target) = translate_api_spec w s msg (Some target)"
    by (simp add: translate_api_def translate_api_spec_def translate_to_output_def)
next
  assume a: "get_pipeline w s (source_language msg @ ''->'' @ target) = (Inr pipe, s1) \<and>
    call pipe (Some (msg_text msg)) = Inr (c # cs) \<and> c ''translation_text'' = Some out"
  then have "translate_text w s (Some (msg_text msg)) (source_language msg) target =
      (Inr out, emit (Invoke (hid pipe) (Some (msg_text msg))) s1)"
    using translate_text_first_candidate
      [of w s "source_language msg" target pipe s1 "Some (msg_text msg)" c cs out]
    by simp
  then show "translate_api w s msg (Some target) =
      (Inr \<lparr>translated = out\<rparr>, emit (Invoke (hid pipe) (Some (msg_text msg))) s1)"
    by (simp add: translate_api_def)
qed

theorem translate_api_translates_source_to_target_witness:
  "get_pipeline sample_world init_state (''en'' @ ''->'' @ ''hi'') =
     (Inr sample_handle,
      \<lparr>translation_pipelines = [''en->hi'' \<mapsto> sample_handle], next_id = 1,
       trace = [Construct ''Helsinki-NLP/opus-mt-en-hi'', Store ''en->hi'' 0]\<rparr>) \<and>
   call sample_handle (Some ''Hello'') = Inr [[''translation_text'' \<mapsto> ''T(Hello)'']] \<and>
   translate_api sample_world init_state
       \<lparr>msg_text = ''Hello'', source_language = ''en''\<rparr> (Some ''hi'') =
     (Inr \<lparr>translated = ''T(Hello)''\<rparr>,
      \<lparr>translation_pipelines = [''en->hi'' \<mapsto> sample_handle], next_id = 1,
       trace = [Construct ''Helsinki-NLP/opus-mt-en-hi'', Store ''en->hi'' 0,
                Invoke 0 (Some ''Hello'')]\<rparr>) \<and>
   translate_api_spec sample_world init_state
       \<lparr>msg_text = ''Hello'', source_language = ''en''\<rparr> (Some ''hi'') =
     translate_api sample_world init_state
       \<lparr>msg_text = ''Hello'', source_language = ''en''\<rparr> (Some ''hi'') \<and>
   completion_calls (new_events init_state (snd (translate_api sample_world init_state
       \<lparr>msg_text = ''Hello'', source_language = ''en''\<rparr> (Some ''hi'')))) = []"
proof -
  let ?msg = "\<lparr>msg_text = ''Hello'', source_language = ''en''\<rparr>"
  let ?s1 = "\<lparr>translation_pipelines = [''en->hi'' \<mapsto> sample_handle], next_id = 1,
       trace = [Construct ''Helsinki-NLP/opus-mt-en-hi'', Store ''en->hi'' 0]\<rparr>"
  let ?c = "[''translation_text'' \<mapsto> ''T(Hello)'']"
  have g: "get_pipeline sample_world init_state (''en'' @ ''->'' @ ''hi'') = (Inr sample_handle, ?s1)"
    using get_pipeline_en_hi [of sample_world]
    by (simp add: sample_world_def sample_handle_def)
  have c: "call sample_handle (Some ''Hello'') = Inr [?c]"
    by (simp add: sample_handle_def sample_translator_def)
  have o: "?c ''translation_text'' = Some ''T(Hello)''" by simp
  have l: "source_language ?msg = ''en'' \<and> ''hi'' \<noteq> ''en''" by simp
  note th = translate_api_translates_source_to_target
    [of init_state sample_world ?msg "Some ''hi''" "''hi''" sample_handle ?s1 ?c "[]" "''T(Hello)''"]
  have r: "translate_api sample_world init_state ?msg (Some ''hi'') =
      (Inr \<lparr>translated = ''T(Hello)''\<rparr>, emit (Invoke (hid sample_handle) (Some (msg_text ?msg))) ?s1)"
    by (rule th [THEN conjunct2, THEN conjunct2, rule_format]) (use g c o in simp)
  have e: "translate_api sample_world init_state ?msg (Some ''hi'') =
      translate_api_spec sample_world init_state ?msg (Some ''hi'')"
    by (rule th [THEN conjunct2, THEN conjunct1, rule_format]) (rule l)
  have n: "completion_calls (new_events init_state
      (snd (translate_api sample_world init_state ?msg (Some ''hi'')))) = []"
    by (rule th [THEN conjunct1])
  have r': "translate_api sample_world init_state ?msg (Some ''hi'') =
      (Inr \<lparr>translated = ''T(Hello)''\<rparr>,
       \<lparr>translation_pipelines = [''en->hi'' \<mapsto> sample_handle], next_id = 1,
        trace = [Construct ''Helsinki-NLP/opus-mt-en-hi'', Store ''en->hi'' 0,
                 Invoke 0 (Some ''Hello'')]\<rparr>)"
    unfolding r by (simp add: emit_def sample_handle_def)
  show ?thesis
    using g c r' e n by simp
qed

text \<open>
  C1 as stated fails: for a Hindi text with target \<^verbatim>\<open>"en"\<close> the endpoint answers
  with the translation made by the \<^verbatim>\<open>hi->en\<close> pipeline, where step 4 would pass
  the text through unchanged.
\<close>

theorem translate_api_not_step4_counterexample:
  "translate_api sample_world init_state
       \<lparr>msg_text = ''namaste'', source_language = ''hi''\<rparr> (Some ''en'') =
     (Inr \<lparr>translated = ''T(namaste)''\<rparr>, emit (Invoke 0 (Some ''namaste'')) warm_state) \<and>
   translate_api_spec sample_world init_state
       \<lparr>msg_text = ''namaste'', source_language = ''hi''\<rparr> (Some ''en'') =
     (Inr \<lparr>translated = ''namaste''\<rparr>, init_state)"
  by ((simp add: translate_api_def translate_api_spec_def translate_to_output_def
        translate_text_def get_pipeline_sample sample_handle_def sample_translator_def Let_def)+)

text \<open>
  C8. The only call the endpoint makes is \<^verbatim>\<open>translate_text\<close>. Whatever exception
  \<open>e\<close> that call raises, the endpoint raises \<^verbatim>\<open>HTTPException\<close> with status 500
  and detail \<^verbatim>\<open>str(e)\<close>; and every exception that leaves the endpoint is such
  an \<^verbatim>\<open>HTTPException\<close>, so no other exception escapes it.
\<close>

theorem translate_api_failure_is_500:
  "(translate_text w s (Some (msg_text msg)) (source_language msg)
       (case tp of None \<Rightarrow> ''en'' | Some t \<Rightarrow> t) = (Inl e, s') \<longrightarrow>
      translate_api w s msg tp = (Inl (HTTPException 500 (str_exn e)), s')) \<and>
   (translate_api w s msg tp = (Inl h, s') \<longrightarrow>
      (\<exists>e. h = HTTPException 500 (str_exn e) \<and>
           translate_text w s (Some (msg_text msg)) (source_language msg)
             (case tp of None \<Rightarrow> ''en'' | Some t \<Rightarrow> t) = (Inl e, s')))"
proof -
  let ?t = "translate_text w s (Some (msg_text msg)) (source_language msg)
       (case tp of None \<Rightarrow> ''en'' | Some t \<Rightarrow> t)"
  obtain r s1 where t: "?t = (r, s1)" by (cases ?t)
  show ?thesis
  proof (cases r)
    case (Inl x)
    with t have "translate_api w s msg tp = (Inl (HTTPException 500 (str_exn x)), s1)"
      by (simp add: translate_api_def)
    with t Inl show ?thesis by auto
  next
    case (Inr out)
    with t have "translate_api w s msg tp = (Inr \<lparr>translated = out\<rparr>, s1)"
      by (simp add: translate_api_def)
    with t Inr show ?thesis by simp
  qed
qed

theorem translate_api_failure_is_500_witness:
  "translate_text sample_world init_state (Some ''Hello'') ''en'' ''en'' =
     (Inl (ValueError ''No translation model configured for en->en''), init_state) \<and>
   translate_api sample_world init_state \<lparr>msg_text = ''Hello'', source_language = ''en''\<rparr> None =
     (Inl (HTTPException 500 ''No translation model configured for en->en''), init_state)"
proof -
  let ?msg = "\<lparr>msg_text = ''Hello'', source_language = ''en''\<rparr>"
  have t: "translate_text sample_world init_state (Some ''Hello'') ''en'' ''en'' =
      (Inl (ValueError ''No translation model configured for en->en''), init_state)"
    by (simp add: translate_text_def get_pipeline_def init_state_def LANGUAGE_MODELS_def
        no_model_msg_def)
  note th = translate_api_failure_is_500 [of sample_world init_state ?msg None
      "ValueError ''No translation model configured for en->en''" init_state]
  have "translate_api sample_world init_state ?msg None =
      (Inl (HTTPException 500 (str_exn (ValueError ''No translation model configured for en->en''))),
       init_state)"
    by (rule th [THEN conjunct1, rule_format]) (simp add: t)
  with t show ?thesis by (simp add: str_exn_def)
qed

end
